theory Spec2Isabelle
  imports Complex_Main "HOL-Library.Multiset"
begin

section \<open>Values that cross the boundary to the document store\<close>

text \<open>
  \<open>server.js\<close> is a set of Express route handlers over four Mongoose models. The
  handlers for signup, login, the bookings, the providers and the dashboard statistics
  are embedded one by one, keeping their order of checks; the document store is an
  explicit state that every handler receives and returns, and the \<open>catch\<close> of a handler
  is a branch of its model wherever a call it guards can fail on the request itself (a
  validation, a cast, a duplicate key, a syntax error). Identifiers (ObjectId) and instants (milliseconds since the
  epoch, \<open>Date\<close>) are natural numbers, a \<open>Number\<close> is an IEEE 754 double held as the
  rational it denotes, and strings are ASCII character lists. The contact routes and the read-only profile routes do not
  touch what is proved here and are left out, as are failures of the connection to the
  store.

  A value that the handler passes to Mongoose unchecked is seen through the schema's cast:
  it can be missing (\<open>None\<close>), present without a cast to the schema type (\<open>Uncastable\<close>,
  which Mongoose reports as a cast error), or present with the cast value \<open>Val v\<close>.
  The members of the body that a handler tests itself before use (signup, login) are
  optional JSON values; the query string of the provider listing is a pair of optional
  strings.
\<close>

type_synonym objectId = nat
type_synonym millis = nat

datatype 'a cast = Uncastable | Val 'a
type_synonym 'a field = "'a cast option"

datatype error = ValidationError | DuplicateKeyError | CastError | SyntaxError | IllegalArguments

subsection \<open>Strings\<close>

definition upper_letters :: string where
  "upper_letters = ''ABCDEFGHIJKLMNOPQRSTUVWXYZ''"

definition lower_letters :: string where
  "lower_letters = ''abcdefghijklmnopqrstuvwxyz''"

definition lower_char :: "char \<Rightarrow> char" where
  "lower_char c = (case map_of (zip upper_letters lower_letters) c of Some l \<Rightarrow> l | None \<Rightarrow> c)"

text \<open>\<open>String.prototype.toLowerCase\<close> and the schema option \<open>lowercase: true\<close>, on ASCII.\<close>

definition toLowerCase :: "string \<Rightarrow> string" where
  "toLowerCase s = map lower_char s"

text \<open>JavaScript truthiness of an optional string: \<open>undefined\<close> and \<open>''\<close> are falsy.\<close>

definition truthy :: "string option \<Rightarrow> bool" where
  "truthy v = (case v of None \<Rightarrow> False | Some s \<Rightarrow> s \<noteq> [])"

definition digit_char :: "nat \<Rightarrow> char" where
  "digit_char d = ''0123456789'' ! d"

text \<open>\<open>Number.prototype.toString\<close> on a non-negative integer: its decimal digits.\<close>

fun toString :: "nat \<Rightarrow> string" where
  "toString n = (if n < 10 then [digit_char n] else toString (n div 10) @ [digit_char (n mod 10)])"

declare toString.simps [simp del]

text \<open>\<open>s.slice(-k)\<close>: the last \<open>k\<close> characters, the whole string when it is shorter.\<close>

definition slice_last :: "nat \<Rightarrow> string \<Rightarrow> string" where
  "slice_last k s = drop (length s - k) s"

subsection \<open>Numbers\<close>

text \<open>
  A JavaScript number is a double: a rational that the format represents, an infinity or
  NaN. \<open>to_double\<close> rounds a rational to the nearest double, ties to the even
  significand: the significand has 53 bits, the exponent of the quantum is at least
  \<open>-1074\<close>, and a result of magnitude \<open>2^1024\<close> is an infinity.
\<close>

datatype number = Finite rat | PosInfinity | NegInfinity | NaN



definition pow2 :: "int \<Rightarrow> rat" where
  "pow2 k = (if 0 \<le> k then 2 ^ nat k else 1 / 2 ^ nat (- k))"







subsection \<open>JSON values\<close>

text \<open>A member of a parsed request body; a missing member is \<open>None\<close>.\<close>

datatype json =
    JNull
  | JBool bool
  | JNumber number
  | JString string
  | JArray "json list"
  | JObject "(string \<times> json) list"

text \<open>JavaScript truthiness: \<open>undefined\<close>, \<open>null\<close>, \<open>false\<close>, 0, NaN and \<open>''\<close> are falsy.\<close>

fun js_truthy :: "json option \<Rightarrow> bool" where
  "js_truthy None = False"
| "js_truthy (Some JNull) = False"
| "js_truthy (Some (JBool b)) = b"
| "js_truthy (Some (JNumber n)) = (n \<noteq> Finite 0 \<and> n \<noteq> NaN)"
| "js_truthy (Some (JString s)) = (s \<noteq> [])"
| "js_truthy (Some (JArray xs)) = True"
| "js_truthy (Some (JObject kvs)) = True"

section \<open>Schemas\<close>

record user =
  u_id :: objectId
  fullName :: string
  email :: string
  phone :: string
  gender :: string
  password :: string
  role :: string
  u_createdAt :: millis

record provider =
  p_id :: objectId
  userId :: objectId
  services :: "string list"
  experience :: "number option"
  location :: "string option"
  availability :: "string option"
  rating :: number
  totalReviews :: number
  verified :: bool
  p_createdAt :: millis

record booking =
  b_id :: objectId
  bookingId :: string
  customerId :: objectId
  providerId :: objectId
  service :: string
  date :: millis
  time :: string
  b_location :: string
  amount :: number
  status :: string
  b_createdAt :: millis

text \<open>The collections, in insertion order, and the source of fresh \<open>_id\<close> values.\<close>

record state =
  users :: "user list"
  providers :: "provider list"
  bookings :: "booking list"
  next_id :: objectId

text \<open>
  What a handler reads from outside the store: the bcrypt functions on strings (the hash
  is salted, so it is a parameter), the clock \<open>Date.now()\<close> of the request, the behaviour
  of the regular-expression engine on patterns beyond the fragment interpreted below
  (\<open>None\<close>: the constructor throws a syntax error), and what the libraries make of a
  body member that is not a string: the filter on the stored emails that Mongoose casts
  it to in a query, the string that Mongoose casts it to in a document, and the
  comparison \<open>v < k\<close> of JavaScript.
\<close>

record env =
  bcrypt_hash :: "string \<Rightarrow> string"
  bcrypt_compare :: "string \<Rightarrow> string \<Rightarrow> bool"
  now :: millis
  regexp_ext :: "string \<Rightarrow> (string \<Rightarrow> bool) option"
  query_cast :: "json \<Rightarrow> (string \<Rightarrow> bool) cast"
  string_cast :: "json \<Rightarrow> string cast"
  js_less :: "json \<Rightarrow> nat \<Rightarrow> bool"

section \<open>Responses\<close>

text \<open>The payload \<open>{id, role}\<close> that \<open>jwt.sign\<close> signs.\<close>

datatype token = Token objectId string

datatype user_view = UserView objectId string string string

datatype contact_view = ContactView objectId string string string

datatype body =
    Message string
  | MessageReceived string "json option" "json option" "json option" "json option"
      "string option"
  | MessageError string error
  | MessageTokenUser string token user_view
  | MessageBooking string booking
  | Bookings "(booking \<times> contact_view option \<times> provider option) list"
  | MessageProvider string provider
  | Providers "(provider \<times> contact_view option) list"
  | ProviderStats nat nat nat number number
  | CustomerStats nat nat

datatype response = Response (http_status: nat) (body: body)

section \<open>The access guard\<close>

text \<open>
  The bearer token of a request as \<open>jwt.verify\<close> sees it: none, one that fails
  verification, or a valid one carrying the signed identifier and role.
\<close>

datatype authorization = NoToken | InvalidToken | ValidToken objectId string

definition verifyToken :: "authorization \<Rightarrow> response + objectId \<times> string" where
  "verifyToken a =
     (case a of
        NoToken \<Rightarrow> Inl (Response 401 (Message ''No token provided''))
      | InvalidToken \<Rightarrow> Inl (Response 401 (Message ''Invalid token''))
      | ValidToken uid r \<Rightarrow> Inr (uid, r))"

section \<open>Authentication routes\<close>

text \<open>The first user whose stored email is the lowercase form of the string.\<close>

definition User_by_email :: "state \<Rightarrow> string \<Rightarrow> user option" where
  "User_by_email s em = find (\<lambda>u. email u = toLowerCase em) (users s)"

text \<open>
  \<open>User.findOne({ email })\<close>: to a string the schema's setter \<open>lowercase\<close> is applied
  before it is compared with the stored emails; any other value is what Mongoose casts
  it to, a cast error that is thrown or a filter on the stored email. The first match in
  insertion order is returned.
\<close>

definition User_findOne :: "env \<Rightarrow> state \<Rightarrow> json \<Rightarrow> error + user option" where
  "User_findOne e s v =
     (case v of
        JString em \<Rightarrow> Inr (User_by_email s em)
      | _ \<Rightarrow>
          (case query_cast e v of
             Uncastable \<Rightarrow> Inl CastError
           | Val P \<Rightarrow> Inr (find (\<lambda>u. P (email u)) (users s))))"

text \<open>
  \<open>v.length < k\<close> on a truthy value: a string and an array have their length, an object
  has the member \<open>length\<close> when it has one (the last of several), and on a number, a
  boolean or an object without the member the length is \<open>undefined\<close>, which is less than
  nothing. \<open>null\<close> is never asked: it is falsy.
\<close>

fun length_lt :: "env \<Rightarrow> json \<Rightarrow> nat \<Rightarrow> bool" where
  "length_lt e (JString s) k = (length s < k)"
| "length_lt e (JArray xs) k = (length xs < k)"
| "length_lt e (JObject kvs) k =
     (case map_of (rev kvs) ''length'' of None \<Rightarrow> False | Some v \<Rightarrow> js_less e v k)"
| "length_lt e v k = False"

text \<open>\<open>bcrypt.hash\<close> and \<open>bcrypt.compare\<close> reject an argument that is not a string.\<close>

definition bcryptjs_hash :: "env \<Rightarrow> json \<Rightarrow> error + string" where
  "bcryptjs_hash e v = (case v of JString p \<Rightarrow> Inr (bcrypt_hash e p) | _ \<Rightarrow> Inl IllegalArguments)"

definition bcryptjs_compare :: "env \<Rightarrow> json \<Rightarrow> string \<Rightarrow> error + bool" where
  "bcryptjs_compare e v h =
     (case v of JString p \<Rightarrow> Inr (bcrypt_compare e p h) | _ \<Rightarrow> Inl IllegalArguments)"

text \<open>The cast of a document's member to the schema type String.\<close>

definition cast_String :: "env \<Rightarrow> json \<Rightarrow> string cast" where
  "cast_String e v = (case v of JString s \<Rightarrow> Val s | _ \<Rightarrow> string_cast e v)"

definition User_validate :: "user \<Rightarrow> bool" where
  "User_validate u =
     (fullName u \<noteq> [] \<and> email u \<noteq> [] \<and> phone u \<noteq> [] \<and>
      gender u \<in> set [''male'', ''female'', ''other''] \<and> password u \<noteq> [] \<and>
      role u \<in> set [''customer'', ''provider''])"

text \<open>
  \<open>new User({...})\<close>: the members are cast, the email is set in lowercase, the role and
  the creation time take their defaults. \<open>None\<close> is a document with a failed cast.
\<close>

definition User_new ::
  "env \<Rightarrow> state \<Rightarrow> json \<Rightarrow> json \<Rightarrow> json \<Rightarrow> json \<Rightarrow> string \<Rightarrow> user option" where
  "User_new e s fullName' email' phone' gender' password' =
     (case (cast_String e fullName', cast_String e email', cast_String e phone',
            cast_String e gender') of
        (Val fn, Val em, Val ph, Val g) \<Rightarrow>
          Some \<lparr>u_id = next_id s, fullName = fn, email = toLowerCase em, phone = ph,
                 gender = g, password = password', role = ''customer'', u_createdAt = now e\<rparr>
      | _ \<Rightarrow> None)"

text \<open>\<open>save()\<close>: schema validation, then the insert under the unique index on \<open>email\<close>.\<close>

definition User_save :: "state \<Rightarrow> user option \<Rightarrow> error + user \<times> state" where
  "User_save s doc =
     (case doc of
        None \<Rightarrow> Inl ValidationError
      | Some u \<Rightarrow>
          if \<not> User_validate u then Inl ValidationError
          else if list_ex (\<lambda>v. email v = email u) (users s) then Inl DuplicateKeyError
          else Inr (u, s\<lparr>users := users s @ [u], next_id := Suc (next_id s)\<rparr>))"

definition all_fields_required ::
  "json option \<Rightarrow> json option \<Rightarrow> json option \<Rightarrow> json option \<Rightarrow> json option \<Rightarrow> response" where
  "all_fields_required fullName' email' phone' gender' password' =
     Response 400 (MessageReceived ''All fields are required'' fullName' email' phone' gender'
       (if js_truthy password' then Some ''***'' else None))"

definition post_auth_signup ::
  "env \<Rightarrow> state \<Rightarrow> json option \<Rightarrow> json option \<Rightarrow> json option \<Rightarrow> json option
     \<Rightarrow> json option \<Rightarrow> response \<times> state" where
  "post_auth_signup e s fullName' email' phone' gender' password' =
     (case (fullName', email', phone', gender', password') of
        (Some fn, Some em, Some ph, Some g, Some pw) \<Rightarrow>
          if \<not> js_truthy fullName' \<or> \<not> js_truthy email' \<or> \<not> js_truthy phone' \<or>
             \<not> js_truthy gender' \<or> \<not> js_truthy password'
          then (all_fields_required fullName' email' phone' gender' password', s)
          else if length_lt e pw 8
          then (Response 400 (Message ''Password must be at least 8 characters''), s)
          else (case User_findOne e s em of
                  Inl err \<Rightarrow> (Response 500 (MessageError ''Server error'' err), s)
                | Inr (Some existingUser) \<Rightarrow>
                    (Response 400 (Message ''User already exists with this email''), s)
                | Inr None \<Rightarrow>
                    (case bcryptjs_hash e pw of
                       Inl err \<Rightarrow> (Response 500 (MessageError ''Server error'' err), s)
                     | Inr hashedPassword \<Rightarrow>
                         (case User_save s (User_new e s fn em ph g hashedPassword) of
                            Inl err \<Rightarrow> (Response 500 (MessageError ''Server error'' err), s)
                          | Inr (newUser, s') \<Rightarrow>
                              (Response 201 (MessageTokenUser ''User registered successfully''
                                 (Token (u_id newUser) (role newUser))
                                 (UserView (u_id newUser) (fullName newUser) (email newUser)
                                    (role newUser))), s'))))
      | _ \<Rightarrow> (all_fields_required fullName' email' phone' gender' password', s))"

definition post_auth_login :: "env \<Rightarrow> state \<Rightarrow> json option \<Rightarrow> json option \<Rightarrow> response" where
  "post_auth_login e s email' password' =
     (case (email', password') of
        (Some em, Some pw) \<Rightarrow>
          if \<not> js_truthy email' \<or> \<not> js_truthy password'
          then Response 400 (Message ''Email and password are required'')
          else (case User_findOne e s em of
                  Inl err \<Rightarrow> Response 500 (MessageError ''Server error'' err)
                | Inr None \<Rightarrow> Response 401 (Message ''Invalid credentials'')
                | Inr (Some user) \<Rightarrow>
                    (case bcryptjs_compare e pw (password user) of
                       Inl err \<Rightarrow> Response 500 (MessageError ''Server error'' err)
                     | Inr isPasswordValid \<Rightarrow>
                         if \<not> isPasswordValid
                         then Response 401 (Message ''Invalid credentials'')
                         else Response 200 (MessageTokenUser ''Login successful''
                                (Token (u_id user) (role user))
                                (UserView (u_id user) (fullName user) (email user)
                                   (role user)))))
      | _ \<Rightarrow> Response 400 (Message ''Email and password are required''))"

section \<open>Booking routes\<close>

text \<open>
  A required path of a schema yields its value when the field is present and castable;
  a required string must also be non-empty.
\<close>

definition required :: "'a field \<Rightarrow> 'a option" where
  "required f = (case f of Some (Val v) \<Rightarrow> Some v | _ \<Rightarrow> None)"

definition required_string :: "string field \<Rightarrow> string option" where
  "required_string f = (case f of Some (Val v) \<Rightarrow> (if v = [] then None else Some v) | _ \<Rightarrow> None)"

text \<open>
  \<open>new Booking({...})\<close> followed by the validation that \<open>save()\<close> runs: every path of
  \<open>bookingSchema\<close> but \<open>status\<close> and \<open>createdAt\<close> is required, \<open>status\<close> must be in its
  enum, \<open>createdAt\<close> defaults to the clock. \<open>None\<close> is a failed validation.
\<close>

definition Booking_new ::
  "env \<Rightarrow> state \<Rightarrow> string \<Rightarrow> objectId \<Rightarrow> objectId field \<Rightarrow> string field \<Rightarrow> millis field
     \<Rightarrow> string field \<Rightarrow> string field \<Rightarrow> number field \<Rightarrow> string \<Rightarrow> booking option" where
  "Booking_new e s bookingId' customerId' providerId' service' date' time' location' amount'
     status' =
     (case (required providerId', required_string service', required date',
            required_string time', required_string location', required amount') of
        (Some p, Some sv, Some d, Some t, Some l, Some a) \<Rightarrow>
          if bookingId' = [] \<or>
             status' \<notin> set [''pending'', ''confirmed'', ''completed'', ''cancelled'']
          then None
          else Some \<lparr>b_id = next_id s, bookingId = bookingId', customerId = customerId',
                 providerId = p, service = sv, date = d, time = t, b_location = l,
                 amount = a, status = status', b_createdAt = now e\<rparr>
      | _ \<Rightarrow> None)"

text \<open>\<open>booking.save()\<close>: validation, then the insert under the unique index on \<open>bookingId\<close>.\<close>

definition Booking_save :: "state \<Rightarrow> booking option \<Rightarrow> error + booking \<times> state" where
  "Booking_save s doc =
     (case doc of
        None \<Rightarrow> Inl ValidationError
      | Some b \<Rightarrow>
          if list_ex (\<lambda>x. bookingId x = bookingId b) (bookings s) then Inl DuplicateKeyError
          else Inr (b, s\<lparr>bookings := bookings s @ [b], next_id := Suc (next_id s)\<rparr>))"

definition post_bookings ::
  "env \<Rightarrow> state \<Rightarrow> authorization \<Rightarrow> objectId field \<Rightarrow> string field \<Rightarrow> millis field
     \<Rightarrow> string field \<Rightarrow> string field \<Rightarrow> number field \<Rightarrow> response \<times> state" where
  "post_bookings e s auth providerId' service' date' time' location' amount' =
     (case verifyToken auth of
        Inl r \<Rightarrow> (r, s)
      | Inr (userId', userRole) \<Rightarrow>
          let bookingId' = ''BK'' @ slice_last 6 (toString (now e));
              booking = Booking_new e s bookingId' userId' providerId' service' date' time'
                          location' amount' ''pending''
          in (case Booking_save s booking of
                Inl err \<Rightarrow> (Response 500 (MessageError ''Server error'' err), s)
              | Inr (b, s') \<Rightarrow>
                  (Response 201 (MessageBooking ''Booking created successfully'' b), s')))"

text \<open>A filter document over bookings: each member, when set, must equal the path.\<close>

record booking_query =
  q_customerId :: "objectId option"
  q_providerId :: "objectId option"
  q_status :: "string option"

definition Booking_matches :: "booking_query \<Rightarrow> booking \<Rightarrow> bool" where
  "Booking_matches q b =
     ((case q_customerId q of None \<Rightarrow> True | Some c \<Rightarrow> customerId b = c) \<and>
      (case q_providerId q of None \<Rightarrow> True | Some p \<Rightarrow> providerId b = p) \<and>
      (case q_status q of None \<Rightarrow> True | Some st \<Rightarrow> status b = st))"

definition Booking_find :: "state \<Rightarrow> booking_query \<Rightarrow> booking list" where
  "Booking_find s q = filter (Booking_matches q) (bookings s)"


text \<open>
  \<open>.sort({ createdAt: -1 })\<close>. The store does not fix the order of documents with equal
  keys; the model keeps them in insertion order.
\<close>

definition sort_createdAt_desc :: "booking list \<Rightarrow> booking list" where
  "sort_createdAt_desc bs = sort_key (\<lambda>b. - int (b_createdAt b)) bs"

definition Provider_findOne :: "state \<Rightarrow> objectId \<Rightarrow> provider option" where
  "Provider_findOne s uid = find (\<lambda>p. userId p = uid) (providers s)"

text \<open>\<open>populate\<close>: the referenced document (or its selected paths), \<open>null\<close> when there is none.\<close>

definition populate_user :: "state \<Rightarrow> objectId \<Rightarrow> contact_view option" where
  "populate_user s uid =
     map_option (\<lambda>u. ContactView (u_id u) (fullName u) (email u) (phone u))
       (find (\<lambda>u. u_id u = uid) (users s))"

definition populate_booking :: "state \<Rightarrow> booking \<Rightarrow> booking \<times> contact_view option \<times> provider option" where
  "populate_booking s b =
     (b, populate_user s (customerId b), find (\<lambda>p. p_id p = providerId b) (providers s))"

definition get_bookings :: "state \<Rightarrow> authorization \<Rightarrow> response" where
  "get_bookings s auth =
     (case verifyToken auth of
        Inl r \<Rightarrow> r
      | Inr (userId', userRole) \<Rightarrow>
          let query = \<lparr>q_customerId = None, q_providerId = None, q_status = None\<rparr>;
              query = (if userRole = ''provider''
                       then (case Provider_findOne s userId' of
                               Some provider \<Rightarrow> query\<lparr>q_providerId := Some (p_id provider)\<rparr>
                             | None \<Rightarrow> query)
                       else query)
          in Response 200
               (Bookings (map (populate_booking s) (sort_createdAt_desc (Booking_find s query)))))"

fun update_first :: "('a \<Rightarrow> bool) \<Rightarrow> ('a \<Rightarrow> 'a) \<Rightarrow> 'a list \<Rightarrow> 'a list" where
  "update_first P f [] = []"
| "update_first P f (x # xs) = (if P x then f x # xs else x # update_first P f xs)"

text \<open>
  \<open>Booking.findByIdAndUpdate(id, { status }, { new: true })\<close>. The identifier is the path
  segment \<open>:id\<close> and the status is the body's member, both cast by Mongoose, which
  throws when a cast fails. Update validators are off, so the enum of \<open>status\<close> is not
  checked. The updated document is returned, \<open>null\<close> when no document has the identifier.
  A body without a \<open>status\<close> member is not modelled.
\<close>

definition Booking_findByIdAndUpdate ::
  "state \<Rightarrow> objectId cast \<Rightarrow> string cast \<Rightarrow> error + booking option \<times> state" where
  "Booking_findByIdAndUpdate s id' status' =
     (case (id', status') of
        (Val i, Val st) \<Rightarrow>
          (case find (\<lambda>b. b_id b = i) (bookings s) of
             None \<Rightarrow> Inr (None, s)
           | Some b \<Rightarrow>
               Inr (Some (b\<lparr>status := st\<rparr>),
                    s\<lparr>bookings := update_first (\<lambda>b. b_id b = i) (\<lambda>b. b\<lparr>status := st\<rparr>)
                                    (bookings s)\<rparr>))
      | _ \<Rightarrow> Inl CastError)"

definition patch_bookings_status ::
  "state \<Rightarrow> authorization \<Rightarrow> objectId cast \<Rightarrow> string cast \<Rightarrow> response \<times> state" where
  "patch_bookings_status s auth id' status' =
     (case verifyToken auth of
        Inl r \<Rightarrow> (r, s)
      | Inr (userId', userRole) \<Rightarrow>
          (case Booking_findByIdAndUpdate s id' status' of
             Inl err \<Rightarrow> (Response 500 (MessageError ''Server error'' err), s)
           | Inr (None, s') \<Rightarrow> (Response 404 (Message ''Booking not found''), s')
           | Inr (Some booking, s') \<Rightarrow>
               (Response 200 (MessageBooking ''Booking status updated'' booking), s')))"

section \<open>Provider routes\<close>

text \<open>\<open>User.findById\<close>: the first user with the identifier.\<close>

definition User_findById :: "state \<Rightarrow> objectId \<Rightarrow> user option" where
  "User_findById s uid = find (\<lambda>u. u_id u = uid) (users s)"

text \<open>
  \<open>User.findByIdAndUpdate(req.userId, { role: 'provider' })\<close>: the first user with the
  identifier gets the role; nothing happens when there is none.
\<close>

definition User_findByIdAndUpdate_role :: "state \<Rightarrow> objectId \<Rightarrow> string \<Rightarrow> state" where
  "User_findByIdAndUpdate_role s uid r =
     s\<lparr>users := update_first (\<lambda>u. u_id u = uid) (\<lambda>u. u\<lparr>role := r\<rparr>) (users s)\<rparr>"

text \<open>An optional path: a missing field is stored as missing, an uncastable one is an error.\<close>

definition optional :: "'a field \<Rightarrow> 'a option option" where
  "optional f = (case f of None \<Rightarrow> Some None | Some Uncastable \<Rightarrow> None | Some (Val v) \<Rightarrow> Some (Some v))"

text \<open>
  \<open>new Provider({...})\<close> with the validation of \<open>save()\<close>: only \<open>userId\<close> is required, and
  the handler always supplies it; \<open>services\<close> defaults to the empty array, \<open>rating\<close> and
  \<open>totalReviews\<close> to 0, \<open>verified\<close> to false.
\<close>

definition Provider_new ::
  "env \<Rightarrow> state \<Rightarrow> objectId \<Rightarrow> string list field \<Rightarrow> number field \<Rightarrow> string field
     \<Rightarrow> string field \<Rightarrow> provider option" where
  "Provider_new e s userId' services' experience' location' availability' =
     (case (optional services', optional experience', optional location',
            optional availability') of
        (Some sv, Some ex, Some lo, Some av) \<Rightarrow>
          Some \<lparr>p_id = next_id s, userId = userId',
            services = (case sv of None \<Rightarrow> [] | Some l \<Rightarrow> l), experience = ex,
            location = lo, availability = av, rating = Finite 0, totalReviews = Finite 0,
            verified = False, p_createdAt = now e\<rparr>
      | _ \<Rightarrow> None)"

definition Provider_save :: "state \<Rightarrow> provider option \<Rightarrow> error + provider \<times> state" where
  "Provider_save s doc =
     (case doc of
        None \<Rightarrow> Inl ValidationError
      | Some p \<Rightarrow> Inr (p, s\<lparr>providers := providers s @ [p], next_id := Suc (next_id s)\<rparr>))"

definition post_providers_register ::
  "env \<Rightarrow> state \<Rightarrow> authorization \<Rightarrow> string list field \<Rightarrow> number field \<Rightarrow> string field
     \<Rightarrow> string field \<Rightarrow> response \<times> state" where
  "post_providers_register e s auth services' experience' location' availability' =
     (case verifyToken auth of
        Inl r \<Rightarrow> (r, s)
      | Inr (userId', userRole) \<Rightarrow>
          (case Provider_findOne s userId' of
             Some existingProvider \<Rightarrow>
               (Response 400 (Message ''Already registered as provider''), s)
           | None \<Rightarrow>
               let s1 = User_findByIdAndUpdate_role s userId' ''provider'';
                   provider = Provider_new e s1 userId' services' experience' location'
                                availability'
               in (case Provider_save s1 provider of
                     Inl err \<Rightarrow> (Response 500 (MessageError ''Server error'' err), s1)
                   | Inr (p, s2) \<Rightarrow>
                       (Response 201 (MessageProvider ''Provider registration successful'' p),
                        s2))))"

subsection \<open>Regular expressions\<close>

text \<open>
  \<open>new RegExp(location, 'i')\<close> is interpreted on the patterns built from characters that
  stand for themselves and the wildcard \<open>.\<close>; on any pattern with another syntax
  character the engine's answer is the parameter \<open>regexp_ext\<close>. A pattern matches a
  string when it matches some substring of it; under the flag \<open>i\<close> letters are compared
  without case; the wildcard matches every character but the line feed.
\<close>

datatype atom = AnyChar | Lit char

definition syntax_chars :: string where
  "syntax_chars = ''^$.*+?()[]{}|'' @ [CHR 0x5C]"

fun compile :: "string \<Rightarrow> atom list option" where
  "compile [] = Some []"
| "compile (c # cs) =
     (if c = CHR ''.'' then map_option ((#) AnyChar) (compile cs)
      else if c \<in> set syntax_chars then None
      else map_option ((#) (Lit c)) (compile cs))"

fun atom_matches :: "atom \<Rightarrow> char \<Rightarrow> bool" where
  "atom_matches AnyChar c = (c \<noteq> CHR 0x0A)"
| "atom_matches (Lit l) c = (lower_char l = lower_char c)"

fun match_here :: "atom list \<Rightarrow> string \<Rightarrow> bool" where
  "match_here [] s = True"
| "match_here (a # as) [] = False"
| "match_here (a # as) (c # cs) = (atom_matches a c \<and> match_here as cs)"

fun search :: "atom list \<Rightarrow> string \<Rightarrow> bool" where
  "search as [] = match_here as []"
| "search as (c # cs) = (match_here as (c # cs) \<or> search as cs)"

definition RegExp_i :: "env \<Rightarrow> string \<Rightarrow> (string \<Rightarrow> bool) option" where
  "RegExp_i e pattern =
     (case compile pattern of Some atoms \<Rightarrow> Some (search atoms) | None \<Rightarrow> regexp_ext e pattern)"

subsection \<open>Listing\<close>

record provider_query =
  q_verified :: "bool option"
  q_services :: "string option"
  q_location :: "(string \<Rightarrow> bool) option"

text \<open>
  A string against the array path \<open>services\<close> matches when the array has it as an element;
  a regular expression against \<open>location\<close> matches when the path is set and tests true.
\<close>

definition Provider_matches :: "provider_query \<Rightarrow> provider \<Rightarrow> bool" where
  "Provider_matches q p =
     ((case q_verified q of None \<Rightarrow> True | Some v \<Rightarrow> verified p = v) \<and>
      (case q_services q of None \<Rightarrow> True | Some sv \<Rightarrow> sv \<in> set (services p)) \<and>
      (case q_location q of
         None \<Rightarrow> True
       | Some re \<Rightarrow> (case location p of None \<Rightarrow> False | Some l \<Rightarrow> re l)))"

definition Provider_find :: "state \<Rightarrow> provider_query \<Rightarrow> provider list" where
  "Provider_find s q = filter (Provider_matches q) (providers s)"

definition populate_provider :: "state \<Rightarrow> provider \<Rightarrow> provider \<times> contact_view option" where
  "populate_provider s p = (p, populate_user s (userId p))"

definition get_providers :: "env \<Rightarrow> state \<Rightarrow> string option \<Rightarrow> string option \<Rightarrow> response" where
  "get_providers e s service' location' =
     (let query = \<lparr>q_verified = Some True, q_services = None, q_location = None\<rparr>;
          query = (if truthy service' then query\<lparr>q_services := service'\<rparr> else query)
      in (case (if truthy location' then location' else None) of
            Some l \<Rightarrow>
              (case RegExp_i e l of
                 None \<Rightarrow> Response 500 (MessageError ''Server error'' SyntaxError)
               | Some re \<Rightarrow>
                   Response 200 (Providers (map (populate_provider s)
                     (Provider_find s (query\<lparr>q_location := Some re\<rparr>)))))
          | None \<Rightarrow> Response 200 (Providers (map (populate_provider s) (Provider_find s query)))))"

section \<open>Dashboard statistics\<close>




section \<open>A sample installation\<close>

text \<open>
  A fixed environment and a small store on which the theorems below are instantiated:
  two users, of whom the second has registered as a provider, and three bookings, two
  of them with that provider. Every pattern used on it lies in the interpreted fragment
  of the regular expressions and every body member tested on it is a string or a number,
  so its \<open>regexp_ext\<close>, \<open>query_cast\<close>, \<open>string_cast\<close> and \<open>js_less\<close> are never
  consulted.
\<close>

definition sample_env :: env where
  "sample_env = \<lparr>bcrypt_hash = (\<lambda>p. ''$2a$10$'' @ p),
     bcrypt_compare = (\<lambda>p h. h = ''$2a$10$'' @ p),
     now = 1730000123456,
     regexp_ext = (\<lambda>p. None),
     query_cast = (\<lambda>v. Uncastable),
     string_cast = (\<lambda>v. Uncastable),
     js_less = (\<lambda>v k. False)\<rparr>"

definition asha :: user where
  "asha = \<lparr>u_id = 1, fullName = ''Asha Rao'', email = ''asha@example.com'',
     phone = ''9000000001'', gender = ''female'', password = ''$2a$10$correct-horse'',
     role = ''customer'', u_createdAt = 1729000000000\<rparr>"

definition ravi :: user where
  "ravi = \<lparr>u_id = 2, fullName = ''Ravi Kumar'', email = ''ravi@example.com'',
     phone = ''9000000002'', gender = ''male'', password = ''$2a$10$battery-staple'',
     role = ''provider'', u_createdAt = 1729000000500\<rparr>"

definition ravi_provider :: provider where
  "ravi_provider = \<lparr>p_id = 3, userId = 2, services = [''plumbing'', ''electrician''],
     experience = Some (Finite 5), location = Some ''Mumbai'',
     availability = Some ''weekdays'', rating = Finite 4, totalReviews = Finite 12, verified = True, p_createdAt = 1729000001000\<rparr>"

definition bk_completed :: booking where
  "bk_completed = \<lparr>b_id = 4, bookingId = ''BK000111'', customerId = 1, providerId = 3,
     service = ''plumbing'', date = 1729500000000, time = ''10:00'', b_location = ''Andheri'',
     amount = Finite 500, status = ''completed'', b_createdAt = 1729100000000\<rparr>"

definition bk_pending :: booking where
  "bk_pending = \<lparr>b_id = 5, bookingId = ''BK000222'', customerId = 1, providerId = 3,
     service = ''electrician'', date = 1729600000000, time = ''16:30'', b_location = ''Bandra'',
     amount = Finite 300, status = ''pending'', b_createdAt = 1729200000000\<rparr>"

definition bk_other :: booking where
  "bk_other = \<lparr>b_id = 6, bookingId = ''BK000333'', customerId = 1, providerId = 9,
     service = ''cleaning'', date = 1729700000000, time = ''09:00'', b_location = ''Pune'',
     amount = Finite 700, status = ''completed'', b_createdAt = 1729300000000\<rparr>"

definition sample_state :: state where
  "sample_state = \<lparr>users = [asha, ravi], providers = [ravi_provider],
     bookings = [bk_completed, bk_pending, bk_other], next_id = 7\<rparr>"

text \<open>The sample store after the Provider collection has lost its records.\<close>

definition orphan_state :: state where
  "orphan_state = sample_state\<lparr>providers := []\<rparr>"




section \<open>Predicates used by the properties\<close>

text \<open>Every stored email is in the form the schema's \<open>lowercase\<close> setter produces.\<close>

definition emails_lowercase :: "state \<Rightarrow> bool" where
  "emails_lowercase s = list_all (\<lambda>u. email u = toLowerCase (email u)) (users s)"

text \<open>The bookings of a listing response, without the populated references.\<close>

definition listed :: "response \<Rightarrow> booking list" where
  "listed r = (case body r of Bookings bs \<Rightarrow> map fst bs | _ \<Rightarrow> [])"

definition most_recent_first :: "booking list \<Rightarrow> bool" where
  "most_recent_first bs = sorted_wrt (\<lambda>a b. b_createdAt b \<le> b_createdAt a) bs"

text \<open>Some Provider record of the user \<open>uid\<close> is the one the booking refers to.\<close>

definition owned_by :: "state \<Rightarrow> objectId \<Rightarrow> booking \<Rightarrow> bool" where
  "owned_by s uid b = list_ex (\<lambda>p. userId p = uid \<and> p_id p = providerId b) (providers s)"

text \<open>The six low-order decimal digits of a number, high to low.\<close>

definition last_six_digits :: "nat \<Rightarrow> string" where
  "last_six_digits n = map digit_char
     [n div 100000 mod 10, n div 10000 mod 10, n div 1000 mod 10, n div 100 mod 10,
      n div 10 mod 10, n mod 10]"

text \<open>A filter without regular-expression syntax characters.\<close>

definition literal :: "string \<Rightarrow> bool" where
  "literal f = list_all (\<lambda>c. c \<notin> set syntax_chars) f"

text \<open>The string \<open>x\<close> contains \<open>f\<close> as a substring, letters compared without case.\<close>

definition contains_ci :: "string \<Rightarrow> string \<Rightarrow> bool" where
  "contains_ci f x = (\<exists>pre suf. toLowerCase x = pre @ toLowerCase f @ suf)"

text \<open>
  The stores that the four writing handlers produce from the empty store, for any
  requests and any environment.
\<close>

inductive reachable :: "state \<Rightarrow> bool" where
  empty_store: "reachable \<lparr>users = [], providers = [], bookings = [], next_id = 0\<rparr>"
| after_signup: "reachable s \<Longrightarrow> reachable (snd (post_auth_signup e s fn em ph g pw))"
| after_booking: "reachable s \<Longrightarrow> reachable (snd (post_bookings e s a p sv d t l am))"
| after_status: "reachable s \<Longrightarrow> reachable (snd (patch_bookings_status s a i st))"
| after_register: "reachable s \<Longrightarrow> reachable (snd (post_providers_register e s a sv ex lo av))"

section \<open>Properties\<close>

subsection \<open>Login\<close>

lemma sample_by_email_asha: "User_by_email sample_state ''asha@example.com'' = Some asha"
  by (simp add: User_by_email_def sample_state_def asha_def toLowerCase_def lower_char_def
      upper_letters_def lower_letters_def)

lemma sample_by_email_nobody: "User_by_email sample_state ''nobody@example.com'' = None"
  by (simp add: User_by_email_def sample_state_def asha_def ravi_def toLowerCase_def
      lower_char_def upper_letters_def lower_letters_def)





text \<open>
  A password that is not a string is outside the amended statement: \<open>bcrypt.compare\<close>
  throws on it, so the request is answered 500 when the email is registered and 401 when
  it is not.
\<close>

lemma login_password_not_a_string:
  assumes "js_truthy (Some pw)" and "\<forall>p. pw \<noteq> JString p" and "em \<noteq> []"
  shows "post_auth_login e s (Some (JString em)) (Some pw) =
     (case User_by_email s em of
        None \<Rightarrow> Response 401 (Message ''Invalid credentials'')
      | Some u \<Rightarrow> Response 500 (MessageError ''Server error'' IllegalArguments))"
  using assms
  by (cases pw)
    (simp_all add: post_auth_login_def User_findOne_def bcryptjs_compare_def split: option.splits)

lemma login_password_number_sample:
  "post_auth_login sample_env sample_state (Some (JString ''asha@example.com''))
       (Some (JNumber (Finite 12345678)))
     = Response 500 (MessageError ''Server error'' IllegalArguments)
   \<and> post_auth_login sample_env sample_state (Some (JString ''nobody@example.com''))
       (Some (JNumber (Finite 12345678)))
     = Response 401 (Message ''Invalid credentials'')"
  by (simp add: post_auth_login_def User_findOne_def bcryptjs_compare_def sample_by_email_asha
      sample_by_email_nobody)

subsection \<open>Signup\<close>

lemma lower_char_idem: "lower_char (lower_char c) = lower_char c"
  unfolding lower_char_def upper_letters_def lower_letters_def by simp

lemma toLowerCase_idem: "toLowerCase (toLowerCase s) = toLowerCase s"
  by (simp add: toLowerCase_def lower_char_idem)

lemma by_email_registered:
  assumes "emails_lowercase s" and "u \<in> set (users s)"
    and "toLowerCase em = toLowerCase (email u)"
  shows "User_by_email s em \<noteq> None"
proof -
  from assms(1,2) have "email u = toLowerCase (email u)"
    by (simp add: emails_lowercase_def list_all_iff)
  with assms(3) have "email u = toLowerCase em" by simp
  with assms(2) show ?thesis
    by (auto simp: User_by_email_def find_None_iff)
qed

lemma User_new_lowercase:
  "User_new e s fn em ph g pw = Some u \<Longrightarrow> email u = toLowerCase (email u)"
  by (auto simp: User_new_def toLowerCase_idem split: cast.splits)

lemma User_save_users:
  "User_save s doc = Inr (u, s') \<Longrightarrow> doc = Some u \<and> users s' = users s @ [u]"
  by (auto simp: User_save_def split: option.splits if_splits)

lemma signup_users:
  "users (snd (post_auth_signup e s fn em ph g pw)) = users s
   \<or> (\<exists>u. users (snd (post_auth_signup e s fn em ph g pw)) = users s @ [u]
         \<and> email u = toLowerCase (email u))"
  by (auto simp: post_auth_signup_def split: option.splits sum.splits prod.splits
      dest!: User_save_users dest: User_new_lowercase)

text \<open>The stored emails stay lowercase across a signup, whatever its outcome.\<close>

lemma signup_keeps_emails_lowercase:
  assumes "emails_lowercase s"
  shows "emails_lowercase (snd (post_auth_signup e s fn em ph g pw))"
  using assms signup_users [of e s fn em ph g pw]
  by (auto simp: emails_lowercase_def)

lemma sample_emails_lowercase: "emails_lowercase sample_state"
  by (simp add: emails_lowercase_def sample_state_def asha_def ravi_def toLowerCase_def
      lower_char_def upper_letters_def lower_letters_def)

lemma sample_lower_asha: "toLowerCase ''ASHA@Example.com'' = toLowerCase (email asha)"
  by (simp add: asha_def toLowerCase_def lower_char_def upper_letters_def lower_letters_def)

lemma sample_asha_registered: "asha \<in> set (users sample_state)"
  by (simp add: sample_state_def)

text \<open>
  C3, as the claim states it, fails: the field checks come before the lookup of the
  email. A request whose email is registered (up to case) and whose password has fewer
  than 8 characters is answered with the password message, not with the duplicate-email
  message; the status is 400 and nothing is stored in both cases.
\<close>

theorem signup_duplicate_counterexample:
  "asha \<in> set (users sample_state)
   \<and> toLowerCase ''ASHA@Example.com'' = toLowerCase (email asha)
   \<and> post_auth_signup sample_env sample_state (Some (JString ''Asha R''))
        (Some (JString ''ASHA@Example.com'')) (Some (JString ''9000000009''))
        (Some (JString ''female'')) (Some (JString ''short''))
      = (Response 400 (Message ''Password must be at least 8 characters''), sample_state)
   \<and> Message ''Password must be at least 8 characters''
      \<noteq> Message ''User already exists with this email''"
  by (simp add: sample_lower_asha sample_asha_registered post_auth_signup_def)

text \<open>
  C3, amended: for every signup request whose email equals an already-registered user's
  email under case-insensitive comparison, the response has status 400 and no User record
  is persisted; the response is the one of the first check that fails: \<open>All fields are
  required\<close> (with the fields received) when one of the five fields is falsy, else
  \<open>Password must be at least 8 characters\<close> when the length of the password is less than
  8, else the duplicate-email response \<open>User already exists with this email\<close>.
\<close>

theorem signup_duplicate_email:
  assumes "emails_lowercase s" and "u \<in> set (users s)"
    and "toLowerCase em = toLowerCase (email u)"
  shows "post_auth_signup e s fn (Some (JString em)) ph g pw =
     (if \<not> js_truthy fn \<or> em = [] \<or> \<not> js_truthy ph \<or> \<not> js_truthy g \<or> \<not> js_truthy pw
      then Response 400 (MessageReceived ''All fields are required'' fn (Some (JString em))
             ph g (if js_truthy pw then Some ''***'' else None))
      else if (case pw of Some v \<Rightarrow> length_lt e v 8 | None \<Rightarrow> False)
      then Response 400 (Message ''Password must be at least 8 characters'')
      else Response 400 (Message ''User already exists with this email''),
      s)"
proof -
  from assms obtain x where "User_by_email s em = Some x"
    using by_email_registered by blast
  then show ?thesis
    by (cases fn; cases ph; cases g; cases pw)
      (simp_all add: post_auth_signup_def all_fields_required_def User_findOne_def)
qed

theorem signup_duplicate_email_witness:
  "post_auth_signup sample_env sample_state (Some (JString ''Asha R''))
        (Some (JString ''ASHA@Example.com'')) (Some (JString ''9000000009''))
        (Some (JString ''female'')) (Some (JString ''long-enough-password''))
      = (Response 400 (Message ''User already exists with this email''), sample_state)
   \<and> post_auth_signup sample_env sample_state (Some (JString ''Asha R''))
        (Some (JString ''ASHA@Example.com'')) None
        (Some (JString ''female'')) (Some (JNumber (Finite 12345678)))
      = (Response 400 (MessageReceived ''All fields are required'' (Some (JString ''Asha R''))
           (Some (JString ''ASHA@Example.com'')) None (Some (JString ''female''))
           (Some ''***'')), sample_state)"
  using signup_duplicate_email [OF sample_emails_lowercase sample_asha_registered
      sample_lower_asha, of sample_env "Some (JString ''Asha R'')"
        "Some (JString ''9000000009'')" "Some (JString ''female'')"
        "Some (JString ''long-enough-password'')"]
    signup_duplicate_email [OF sample_emails_lowercase sample_asha_registered
      sample_lower_asha, of sample_env "Some (JString ''Asha R'')"
        None "Some (JString ''female'')" "Some (JNumber (Finite 12345678))"]
  by simp


subsection \<open>Listing bookings\<close>

lemma most_recent_first_sort: "most_recent_first (sort_createdAt_desc bs)"
proof -
  have "sorted (map (\<lambda>b. - int (b_createdAt b)) (sort_createdAt_desc bs))"
    by (simp add: sort_createdAt_desc_def)
  then show ?thesis
    by (simp add: sorted_map most_recent_first_def)
qed

lemma mset_sort_createdAt_desc: "mset (sort_createdAt_desc bs) = mset bs"
  by (simp add: sort_createdAt_desc_def)

lemma listed_get_bookings:
  "listed (get_bookings s (ValidToken uid r)) =
     sort_createdAt_desc (Booking_find s
       (if r = ''provider''
        then (case Provider_findOne s uid of
                Some p \<Rightarrow> \<lparr>q_customerId = None, q_providerId = Some (p_id p), q_status = None\<rparr>
              | None \<Rightarrow> \<lparr>q_customerId = None, q_providerId = None, q_status = None\<rparr>)
        else \<lparr>q_customerId = None, q_providerId = None, q_status = None\<rparr>))"
  by (simp add: get_bookings_def verifyToken_def listed_def Let_def populate_booking_def comp_def
      split: option.splits)

lemma sample_findOne_ravi: "Provider_findOne sample_state 2 = Some ravi_provider"
  by (simp add: Provider_findOne_def sample_state_def ravi_provider_def)

text \<open>
  C1 fails on the code for a caller with the role provider who owns no Provider record
  (the user 2 of \<open>orphan_state\<close>): no booking is theirs, and the listing returns all three
  bookings. The handler narrows the query only when the lookup of the caller's Provider
  record finds one, against its own comment \<open>If user is a provider, show only their
  bookings\<close>; the statistics handler answers the same condition with 404.
\<close>

theorem get_bookings_provider_without_record:
  "Provider_findOne orphan_state 2 = None
   \<and> filter (owned_by orphan_state 2) (bookings orphan_state) = []
   \<and> listed (get_bookings orphan_state (ValidToken 2 ''provider''))
       = [bk_other, bk_pending, bk_completed]"
proof -
  have "Provider_findOne orphan_state 2 = None"
    by (simp add: Provider_findOne_def orphan_state_def)
  moreover have "filter (owned_by orphan_state 2) (bookings orphan_state) = []"
    by (simp add: owned_by_def orphan_state_def)
  moreover have "listed (get_bookings orphan_state (ValidToken 2 ''provider''))
       = [bk_other, bk_pending, bk_completed]"
    by (simp add: listed_get_bookings Provider_findOne_def orphan_state_def sample_state_def
        Booking_find_def Booking_matches_def sort_createdAt_desc_def bk_other_def
        bk_pending_def bk_completed_def)
  ultimately show ?thesis by simp
qed

text \<open>
  Where the claim holds: the response has status 200 and its sequence is ordered most
  recent first; for a caller with the role provider for whom a Provider record \<open>p\<close> is
  found it contains exactly the bookings whose providerId is the identifier of \<open>p\<close>, and
  for a caller whose role is not provider it contains exactly all bookings.
\<close>

lemma get_bookings_listing:
  "http_status (get_bookings s (ValidToken uid r)) = 200
   \<and> most_recent_first (listed (get_bookings s (ValidToken uid r)))
   \<and> (r = ''provider'' \<and> Provider_findOne s uid = Some p \<longrightarrow>
        mset (listed (get_bookings s (ValidToken uid r)))
          = mset (filter (\<lambda>b. providerId b = p_id p) (bookings s)))
   \<and> (r \<noteq> ''provider'' \<longrightarrow>
        mset (listed (get_bookings s (ValidToken uid r))) = mset (bookings s))"
proof -
  have "http_status (get_bookings s (ValidToken uid r)) = 200"
    by (simp add: get_bookings_def verifyToken_def Let_def)
  moreover have "most_recent_first (listed (get_bookings s (ValidToken uid r)))"
    by (simp only: listed_get_bookings most_recent_first_sort)
  moreover have "r = ''provider'' \<and> Provider_findOne s uid = Some p \<longrightarrow>
        mset (listed (get_bookings s (ValidToken uid r)))
          = mset (filter (\<lambda>b. providerId b = p_id p) (bookings s))"
    by (simp add: listed_get_bookings mset_sort_createdAt_desc Booking_find_def
        Booking_matches_def)
  moreover have "r \<noteq> ''provider'' \<longrightarrow>
        mset (listed (get_bookings s (ValidToken uid r))) = mset (bookings s)"
    by (auto simp add: listed_get_bookings mset_sort_createdAt_desc Booking_find_def
        Booking_matches_def)
  ultimately show ?thesis by blast
qed

lemma get_bookings_listing_sample:
  "most_recent_first (listed (get_bookings sample_state (ValidToken 2 ''provider'')))
   \<and> mset (listed (get_bookings sample_state (ValidToken 2 ''provider'')))
       = mset [bk_completed, bk_pending]
   \<and> mset (listed (get_bookings sample_state (ValidToken 1 ''customer'')))
       = mset [bk_completed, bk_pending, bk_other]"
proof -
  have "filter (\<lambda>b. providerId b = p_id ravi_provider) (bookings sample_state)
          = [bk_completed, bk_pending]"
    by (simp add: sample_state_def ravi_provider_def bk_completed_def bk_pending_def
        bk_other_def)
  moreover have "bookings sample_state = [bk_completed, bk_pending, bk_other]"
    by (simp add: sample_state_def)
  ultimately show ?thesis
    using get_bookings_listing [of sample_state 2 "''provider''" ravi_provider]
      get_bookings_listing [of sample_state 1 "''customer''" ravi_provider]
      sample_findOne_ravi
    by simp
qed

subsection \<open>Updating the status of a booking\<close>

lemma update_first_split:
  "find P xs = Some x \<Longrightarrow>
     \<exists>pre post. xs = pre @ x # post \<and> update_first P f xs = pre @ f x # post
       \<and> list_all (\<lambda>y. \<not> P y) pre"
proof (induction xs)
  case Nil
  then show ?case by simp
next
  case (Cons a xs)
  show ?case
  proof (cases "P a")
    case True
    with Cons.prems have "a = x" by simp
    with True have "a # xs = [] @ x # xs \<and> update_first P f (a # xs) = [] @ f x # xs
        \<and> list_all (\<lambda>y. \<not> P y) []"
      by simp
    then show ?thesis by blast
  next
    case False
    with Cons.prems have "find P xs = Some x" by simp
    from Cons.IH [OF this] obtain pre post where
      "xs = pre @ x # post" "update_first P f xs = pre @ f x # post" "list_all (\<lambda>y. \<not> P y) pre"
      by blast
    with False have "a # xs = (a # pre) @ x # post
        \<and> update_first P f (a # xs) = (a # pre) @ f x # post
        \<and> list_all (\<lambda>y. \<not> P y) (a # pre)"
      by simp
    then show ?thesis by blast
  qed
qed

text \<open>
  C2, as the claim states it, fails: an identifier that is not a well-formed ObjectId (as
  in \<open>PATCH /api/bookings/123/status\<close>) resolves to no stored booking, and the cast
  error that the update throws is answered with status 500, not 404.
\<close>

theorem patch_status_counterexample:
  "patch_bookings_status sample_state (ValidToken 1 ''customer'') Uncastable (Val ''cancelled'')
     = (Response 500 (MessageError ''Server error'' CastError), sample_state)"
  by (simp add: patch_bookings_status_def verifyToken_def Booking_findByIdAndUpdate_def)

text \<open>
  C2, amended: for every authenticated call to \<open>PATCH /api/bookings/:id/status\<close> with a
  status \<open>st\<close>: if the identifier is not a well-formed ObjectId the response is 500 and no
  booking is modified; if it is well-formed and no stored booking has it, the response is
  404 and no booking is modified; if a stored booking \<open>b\<close> has it, the response is 200
  with \<open>b\<close> whose status is \<open>st\<close>, and the store differs only in that booking, which
  differs only in its status. Nothing relates \<open>st\<close> to the current status or the caller
  to the booking.
\<close>

theorem patch_status_contract:
  "patch_bookings_status s (ValidToken uid r) Uncastable (Val st)
     = (Response 500 (MessageError ''Server error'' CastError), s)
   \<and> (find (\<lambda>b. b_id b = i) (bookings s) = None \<longrightarrow>
        patch_bookings_status s (ValidToken uid r) (Val i) (Val st)
          = (Response 404 (Message ''Booking not found''), s))
   \<and> (find (\<lambda>b. b_id b = i) (bookings s) = Some b \<longrightarrow>
        (\<exists>pre post.
           bookings s = pre @ b # post
           \<and> patch_bookings_status s (ValidToken uid r) (Val i) (Val st)
               = (Response 200 (MessageBooking ''Booking status updated'' (b\<lparr>status := st\<rparr>)),
                  s\<lparr>bookings := pre @ b\<lparr>status := st\<rparr> # post\<rparr>)))"
proof -
  have "patch_bookings_status s (ValidToken uid r) Uncastable (Val st)
     = (Response 500 (MessageError ''Server error'' CastError), s)"
    by (simp add: patch_bookings_status_def verifyToken_def Booking_findByIdAndUpdate_def)
  moreover have "find (\<lambda>b. b_id b = i) (bookings s) = None \<longrightarrow>
        patch_bookings_status s (ValidToken uid r) (Val i) (Val st)
          = (Response 404 (Message ''Booking not found''), s)"
    by (simp add: patch_bookings_status_def verifyToken_def Booking_findByIdAndUpdate_def)
  moreover have "find (\<lambda>b. b_id b = i) (bookings s) = Some b \<longrightarrow>
        (\<exists>pre post.
           bookings s = pre @ b # post
           \<and> patch_bookings_status s (ValidToken uid r) (Val i) (Val st)
               = (Response 200 (MessageBooking ''Booking status updated'' (b\<lparr>status := st\<rparr>)),
                  s\<lparr>bookings := pre @ b\<lparr>status := st\<rparr> # post\<rparr>))"
  proof
    assume f: "find (\<lambda>b. b_id b = i) (bookings s) = Some b"
    from update_first_split [OF f, of "\<lambda>b. b\<lparr>status := st\<rparr>"] obtain pre post where
      "bookings s = pre @ b # post"
      "update_first (\<lambda>b. b_id b = i) (\<lambda>b. b\<lparr>status := st\<rparr>) (bookings s)
         = pre @ b\<lparr>status := st\<rparr> # post"
      by blast
    with f have "bookings s = pre @ b # post
           \<and> patch_bookings_status s (ValidToken uid r) (Val i) (Val st)
               = (Response 200 (MessageBooking ''Booking status updated'' (b\<lparr>status := st\<rparr>)),
                  s\<lparr>bookings := pre @ b\<lparr>status := st\<rparr> # post\<rparr>)"
      by (simp add: patch_bookings_status_def verifyToken_def Booking_findByIdAndUpdate_def)
    then show "\<exists>pre post.
           bookings s = pre @ b # post
           \<and> patch_bookings_status s (ValidToken uid r) (Val i) (Val st)
               = (Response 200 (MessageBooking ''Booking status updated'' (b\<lparr>status := st\<rparr>)),
                  s\<lparr>bookings := pre @ b\<lparr>status := st\<rparr> # post\<rparr>)"
      by blast
  qed
  ultimately show ?thesis by blast
qed

theorem patch_status_contract_witness:
  "(\<exists>pre post.
      bookings sample_state = pre @ bk_other # post
      \<and> patch_bookings_status sample_state (ValidToken 2 ''provider'') (Val 6) (Val ''archived'')
          = (Response 200 (MessageBooking ''Booking status updated''
               (bk_other\<lparr>status := ''archived''\<rparr>)),
             sample_state\<lparr>bookings := pre @ bk_other\<lparr>status := ''archived''\<rparr> # post\<rparr>))
   \<and> patch_bookings_status sample_state (ValidToken 2 ''provider'') (Val 99) (Val ''archived'')
       = (Response 404 (Message ''Booking not found''), sample_state)"
proof -
  have "find (\<lambda>b. b_id b = 6) (bookings sample_state) = Some bk_other"
    by (simp add: sample_state_def bk_completed_def bk_pending_def bk_other_def)
  moreover have "find (\<lambda>b. b_id b = 99) (bookings sample_state) = None"
    by (simp add: sample_state_def bk_completed_def bk_pending_def bk_other_def)
  ultimately show ?thesis
    using patch_status_contract [of sample_state 2 "''provider''" "''archived''" 6 bk_other]
      patch_status_contract [of sample_state 2 "''provider''" "''archived''" 99 bk_other]
    by simp
qed

text \<open>The same update, evaluated: a caller who is neither the customer nor the provider of
  the booking sets a status outside the schema's enum.\<close>

lemma patch_status_sample:
  "patch_bookings_status sample_state (ValidToken 2 ''provider'') (Val 6) (Val ''archived'')
     = (Response 200 (MessageBooking ''Booking status updated''
          (bk_other\<lparr>status := ''archived''\<rparr>)),
        sample_state\<lparr>bookings := [bk_completed, bk_pending,
          bk_other\<lparr>status := ''archived''\<rparr>]\<rparr>)"
  by (simp add: patch_bookings_status_def verifyToken_def Booking_findByIdAndUpdate_def
      sample_state_def bk_completed_def bk_pending_def bk_other_def)

subsection \<open>Creating a booking\<close>

lemma toString_snoc:
  "\<exists>front. toString n = front @ [digit_char (n mod 10)]"
  by (subst toString.simps) simp

lemma toString_ge10: "10 \<le> n \<Longrightarrow> toString n = toString (n div 10) @ [digit_char (n mod 10)]"
  by (subst toString.simps) simp

lemma slice_last_six:
  assumes "100000 \<le> n"
  shows "slice_last 6 (toString n) = last_six_digits n"
proof -
  have 1: "toString n = toString (n div 10) @ [digit_char (n mod 10)]"
    using assms by (intro toString_ge10) simp
  have 2: "toString (n div 10) = toString (n div 100) @ [digit_char (n div 10 mod 10)]"
    using assms toString_ge10 [of "n div 10"] by (simp add: div_mult2_eq [symmetric])
  have 3: "toString (n div 100) = toString (n div 1000) @ [digit_char (n div 100 mod 10)]"
    using assms toString_ge10 [of "n div 100"] by (simp add: div_mult2_eq [symmetric])
  have 4: "toString (n div 1000) = toString (n div 10000) @ [digit_char (n div 1000 mod 10)]"
    using assms toString_ge10 [of "n div 1000"] by (simp add: div_mult2_eq [symmetric])
  have 5: "toString (n div 10000) = toString (n div 100000) @ [digit_char (n div 10000 mod 10)]"
    using assms toString_ge10 [of "n div 10000"] by (simp add: div_mult2_eq [symmetric])
  obtain front where 6: "toString (n div 100000) = front @ [digit_char (n div 100000 mod 10)]"
    using toString_snoc by blast
  show ?thesis
    by (simp add: 1 2 3 4 5 6 slice_last_def last_six_digits_def)
qed

lemma Booking_new_Some:
  assumes "Booking_new e s bid cid p sv d t l a st = Some b"
  shows "status b = st \<and> bookingId b = bid \<and> customerId b = cid"
  using assms
  by (auto simp: Booking_new_def split: option.splits if_splits)

text \<open>
  C5: every booking persisted by \<open>POST /api/bookings\<close> with a valid token has status
  \<open>pending\<close> and the bookingId \<open>'BK'\<close> followed by the last six characters of the
  decimal form of the clock reading; from the reading 100000 on (1 minute 40 seconds
  after the epoch) these are its six low-order decimal digits. The handler either leaves
  the bookings as they are or appends exactly this one booking.
\<close>

theorem post_bookings_persisted:
  assumes "post_bookings e s (ValidToken uid r) p sv d t l a = (resp, s')"
  shows "bookings s' = bookings s
    \<or> (\<exists>b. bookings s' = bookings s @ [b]
          \<and> resp = Response 201 (MessageBooking ''Booking created successfully'' b)
          \<and> status b = ''pending''
          \<and> bookingId b = ''BK'' @ slice_last 6 (toString (now e))
          \<and> (100000 \<le> now e \<longrightarrow> bookingId b = ''BK'' @ last_six_digits (now e)))"
proof (cases "Booking_new e s (''BK'' @ slice_last 6 (toString (now e))) uid p sv d t l a
    ''pending''")
  case None
  with assms show ?thesis
    by (simp add: post_bookings_def verifyToken_def Booking_save_def)
next
  case (Some b)
  note props = Booking_new_Some [OF Some]
  show ?thesis
  proof (cases "list_ex (\<lambda>x. bookingId x = bookingId b) (bookings s)")
    case True
    with assms Some show ?thesis
      by (simp add: post_bookings_def verifyToken_def Booking_save_def)
  next
    case False
    with assms Some have "bookings s' = bookings s @ [b]"
      and "resp = Response 201 (MessageBooking ''Booking created successfully'' b)"
      by (auto simp: post_bookings_def verifyToken_def Booking_save_def)
    with props show ?thesis
      by (simp add: slice_last_six)
  qed
qed

lemma post_bookings_sample:
  "post_bookings sample_env sample_state (ValidToken 1 ''customer'') (Some (Val 3))
     (Some (Val ''plumbing'')) (Some (Val 1730500000000)) (Some (Val ''11:00''))
     (Some (Val ''Andheri'')) (Some (Val (Finite 450)))
   = (Response 201 (MessageBooking ''Booking created successfully''
        \<lparr>b_id = 7, bookingId = ''BK123456'', customerId = 1, providerId = 3,
         service = ''plumbing'', date = 1730500000000, time = ''11:00'',
         b_location = ''Andheri'', amount = Finite 450, status = ''pending'',
         b_createdAt = 1730000123456\<rparr>),
      sample_state\<lparr>bookings := bookings sample_state @
        [\<lparr>b_id = 7, bookingId = ''BK123456'', customerId = 1, providerId = 3,
         service = ''plumbing'', date = 1730500000000, time = ''11:00'',
         b_location = ''Andheri'', amount = Finite 450, status = ''pending'',
         b_createdAt = 1730000123456\<rparr>], next_id := 8\<rparr>)"
proof -
  have "100000 \<le> now sample_env" by (simp add: sample_env_def)
  then have "slice_last 6 (toString (now sample_env)) = ''123456''"
    by (simp add: slice_last_six) (simp add: last_six_digits_def digit_char_def sample_env_def)
  then show ?thesis
    by (simp add: post_bookings_def verifyToken_def Booking_new_def required_def
        required_string_def Booking_save_def Let_def)
      (simp add: sample_state_def sample_env_def bk_completed_def bk_pending_def bk_other_def)
qed

theorem post_bookings_persisted_witness:
  "\<exists>b. bookings (snd (post_bookings sample_env sample_state (ValidToken 1 ''customer'')
            (Some (Val 3)) (Some (Val ''plumbing'')) (Some (Val 1730500000000))
            (Some (Val ''11:00'')) (Some (Val ''Andheri'')) (Some (Val (Finite 450)))))
          = bookings sample_state @ [b]
        \<and> status b = ''pending'' \<and> bookingId b = ''BK123456''"
proof -
  have six: "last_six_digits (now sample_env) = ''123456''"
    by (simp add: last_six_digits_def digit_char_def sample_env_def)
  have late: "100000 \<le> now sample_env"
    by (simp add: sample_env_def)
  from post_bookings_persisted [OF post_bookings_sample]
  obtain b where "bookings sample_state @ [\<lparr>b_id = 7, bookingId = ''BK123456'',
         customerId = 1, providerId = 3, service = ''plumbing'', date = 1730500000000,
         time = ''11:00'', b_location = ''Andheri'', amount = Finite 450, status = ''pending'',
         b_createdAt = 1730000123456\<rparr>] = bookings sample_state @ [b]"
    and "status b = ''pending''"
    and "100000 \<le> now sample_env \<longrightarrow> bookingId b = ''BK'' @ last_six_digits (now sample_env)"
    by auto
  with six late have "bookings (snd (post_bookings sample_env sample_state
            (ValidToken 1 ''customer'')
            (Some (Val 3)) (Some (Val ''plumbing'')) (Some (Val 1730500000000))
            (Some (Val ''11:00'')) (Some (Val ''Andheri'')) (Some (Val (Finite 450)))))
          = bookings sample_state @ [b]
        \<and> status b = ''pending'' \<and> bookingId b = ''BK123456''"
    unfolding post_bookings_sample by simp
  then show ?thesis by blast
qed

text \<open>The handler has no branch that answers 400: the status is 201 or 500.\<close>

lemma post_bookings_status:
  "http_status (fst (post_bookings e s (ValidToken uid r) p sv d t l a)) \<in> {201, 500}"
  by (simp add: post_bookings_def verifyToken_def Let_def split: sum.splits prod.splits)

lemma Booking_new_absent:
  assumes "providerId' = None \<or> service' = None \<or> date' = None \<or> time' = None
    \<or> location' = None \<or> amount' = None"
  shows "Booking_new e s bid cid providerId' service' date' time' location' amount' st = None"
  using assms
  by (auto simp: Booking_new_def required_def required_string_def split: option.splits)

text \<open>
  C9: when any of \<open>providerId\<close>, \<open>service\<close>, \<open>date\<close>, \<open>time\<close>, \<open>location\<close>, \<open>amount\<close> is
  absent from an authenticated request, the validation error of \<open>save()\<close> is caught, the
  response is 500 with the message \<open>Server error\<close>, and the store is unchanged.
\<close>

theorem post_bookings_missing_field:
  assumes "providerId' = None \<or> service' = None \<or> date' = None \<or> time' = None
    \<or> location' = None \<or> amount' = None"
  shows "post_bookings e s (ValidToken uid r) providerId' service' date' time' location' amount'
    = (Response 500 (MessageError ''Server error'' ValidationError), s)"
  by (simp add: post_bookings_def verifyToken_def Booking_new_absent [OF assms] Booking_save_def)

theorem post_bookings_missing_field_witness:
  "post_bookings sample_env sample_state (ValidToken 1 ''customer'') (Some (Val 3))
     (Some (Val ''plumbing'')) (Some (Val 1730500000000)) (Some (Val ''11:00''))
     (Some (Val ''Andheri'')) None
   = (Response 500 (MessageError ''Server error'' ValidationError), sample_state)"
  using post_bookings_missing_field [of "Some (Val 3)" "Some (Val ''plumbing'')"
      "Some (Val 1730500000000)" "Some (Val ''11:00'')" "Some (Val ''Andheri'')" None
      sample_env sample_state 1 "''customer''"]
  by simp

subsection \<open>Registering as a provider\<close>

lemma find_update_first:
  assumes "\<And>x. P (f x) = P x"
  shows "find P (update_first P f xs) = map_option f (find P xs)"
  using assms by (induction xs) auto

lemma findById_role_update:
  "User_findById (User_findByIdAndUpdate_role s uid r) uid
     = map_option (\<lambda>u. u\<lparr>role := r\<rparr>) (User_findById s uid)"
  by (simp add: User_findById_def User_findByIdAndUpdate_role_def find_update_first)

lemma findOne_role_update [simp]:
  "Provider_findOne (User_findByIdAndUpdate_role s uid r) x = Provider_findOne s x"
  by (simp add: Provider_findOne_def User_findByIdAndUpdate_role_def)

lemma providers_role_update [simp]:
  "providers (User_findByIdAndUpdate_role s uid r) = providers s"
  by (simp add: User_findByIdAndUpdate_role_def)

lemma Provider_new_castable:
  assumes "sv \<noteq> Some Uncastable" and "ex \<noteq> Some Uncastable" and "lo \<noteq> Some Uncastable"
    and "av \<noteq> Some Uncastable"
  shows "\<exists>q. Provider_new e s uid sv ex lo av = Some q \<and> userId q = uid"
  using assms
  by (auto simp: Provider_new_def optional_def split: option.splits cast.splits)

lemma sample_findOne_asha_provider: "Provider_findOne sample_state 1 = None"
  by (simp add: Provider_findOne_def sample_state_def ravi_provider_def)

lemma sample_role_update:
  "User_findByIdAndUpdate_role sample_state 1 ''provider''
     = sample_state\<lparr>users := [asha\<lparr>role := ''provider''\<rparr>, ravi]\<rparr>"
  by (simp add: User_findByIdAndUpdate_role_def sample_state_def asha_def)

lemma sample_findById_asha: "User_findById sample_state 1 = Some asha"
  by (simp add: User_findById_def sample_state_def asha_def)

text \<open>
  C6, as the claim states it, fails: when no Provider record exists for the caller, the
  record is persisted only if \<open>save()\<close> accepts it. With an \<open>experience\<close> that has no
  cast to Number the response is 500 and the Provider collection is unchanged.
\<close>

theorem register_counterexample:
  "Provider_findOne sample_state 1 = None
   \<and> post_providers_register sample_env sample_state (ValidToken 1 ''customer'')
        (Some (Val [''cleaning''])) (Some Uncastable) (Some (Val ''Pune'')) None
      = (Response 500 (MessageError ''Server error'' ValidationError),
         sample_state\<lparr>users := [asha\<lparr>role := ''provider''\<rparr>, ravi]\<rparr>)
   \<and> providers (sample_state\<lparr>users := [asha\<lparr>role := ''provider''\<rparr>, ravi]\<rparr>)
      = providers sample_state"
  using sample_findOne_asha_provider sample_role_update
  by (simp add: post_providers_register_def verifyToken_def Let_def Provider_new_def
      optional_def Provider_save_def)

text \<open>
  C6, amended: for every authenticated call to provider register: if a Provider record
  already exists for the caller, the response is 400 \<open>Already registered as provider\<close> and
  the store is unchanged; otherwise the role of the caller's User record is set to provider
  and, when none of the four submitted fields fails its cast, the response is 201 and one
  Provider record for the caller is appended to the collection.
\<close>

theorem register_contract:
  "(Provider_findOne s uid = Some p \<longrightarrow>
      post_providers_register e s (ValidToken uid r) sv ex lo av
        = (Response 400 (Message ''Already registered as provider''), s))
   \<and> (Provider_findOne s uid = None \<longrightarrow>
        User_findById (snd (post_providers_register e s (ValidToken uid r) sv ex lo av)) uid
          = map_option (\<lambda>u. u\<lparr>role := ''provider''\<rparr>) (User_findById s uid)
        \<and> (sv \<noteq> Some Uncastable \<and> ex \<noteq> Some Uncastable \<and> lo \<noteq> Some Uncastable
             \<and> av \<noteq> Some Uncastable \<longrightarrow>
            (\<exists>q. fst (post_providers_register e s (ValidToken uid r) sv ex lo av)
                   = Response 201 (MessageProvider ''Provider registration successful'' q)
                 \<and> userId q = uid
                 \<and> providers (snd (post_providers_register e s (ValidToken uid r) sv ex lo av))
                     = providers s @ [q])))"
proof -
  let ?s1 = "User_findByIdAndUpdate_role s uid ''provider''"
  have a: "Provider_findOne s uid = Some p \<longrightarrow>
      post_providers_register e s (ValidToken uid r) sv ex lo av
        = (Response 400 (Message ''Already registered as provider''), s)"
    by (simp add: post_providers_register_def verifyToken_def)
  have b: "Provider_findOne s uid = None \<longrightarrow>
        User_findById (snd (post_providers_register e s (ValidToken uid r) sv ex lo av)) uid
          = map_option (\<lambda>u. u\<lparr>role := ''provider''\<rparr>) (User_findById s uid)"
  proof
    assume n: "Provider_findOne s uid = None"
    have "users (snd (post_providers_register e s (ValidToken uid r) sv ex lo av)) = users ?s1"
      using n
      by (simp add: post_providers_register_def verifyToken_def Let_def Provider_save_def
          split: option.splits)
    then have "User_findById (snd (post_providers_register e s (ValidToken uid r) sv ex lo av)) uid
        = User_findById ?s1 uid"
      by (simp add: User_findById_def)
    then show "User_findById (snd (post_providers_register e s (ValidToken uid r) sv ex lo av)) uid
          = map_option (\<lambda>u. u\<lparr>role := ''provider''\<rparr>) (User_findById s uid)"
      by (simp add: findById_role_update)
  qed
  have c: "Provider_findOne s uid = None \<and> sv \<noteq> Some Uncastable \<and> ex \<noteq> Some Uncastable
      \<and> lo \<noteq> Some Uncastable \<and> av \<noteq> Some Uncastable \<longrightarrow>
            (\<exists>q. fst (post_providers_register e s (ValidToken uid r) sv ex lo av)
                   = Response 201 (MessageProvider ''Provider registration successful'' q)
                 \<and> userId q = uid
                 \<and> providers (snd (post_providers_register e s (ValidToken uid r) sv ex lo av))
                     = providers s @ [q])"
  proof
    assume h: "Provider_findOne s uid = None \<and> sv \<noteq> Some Uncastable \<and> ex \<noteq> Some Uncastable
      \<and> lo \<noteq> Some Uncastable \<and> av \<noteq> Some Uncastable"
    then obtain q where q: "Provider_new e ?s1 uid sv ex lo av = Some q" "userId q = uid"
      using Provider_new_castable [of sv ex lo av e ?s1 uid] by blast
    with h have "fst (post_providers_register e s (ValidToken uid r) sv ex lo av)
                   = Response 201 (MessageProvider ''Provider registration successful'' q)
                 \<and> userId q = uid
                 \<and> providers (snd (post_providers_register e s (ValidToken uid r) sv ex lo av))
                     = providers s @ [q]"
      by (simp add: post_providers_register_def verifyToken_def Let_def Provider_save_def)
    then show "\<exists>q. fst (post_providers_register e s (ValidToken uid r) sv ex lo av)
                   = Response 201 (MessageProvider ''Provider registration successful'' q)
                 \<and> userId q = uid
                 \<and> providers (snd (post_providers_register e s (ValidToken uid r) sv ex lo av))
                     = providers s @ [q]"
      by blast
  qed
  from a b c show ?thesis by blast
qed

theorem register_contract_witness:
  "post_providers_register sample_env sample_state (ValidToken 2 ''provider'')
       (Some (Val [''cleaning''])) (Some (Val (Finite 2))) (Some (Val ''Pune'')) None
     = (Response 400 (Message ''Already registered as provider''), sample_state)
   \<and> User_findById (snd (post_providers_register sample_env sample_state
          (ValidToken 1 ''customer'') (Some (Val [''cleaning''])) (Some (Val (Finite 2)))
          (Some (Val ''Pune'')) None)) 1
       = Some (asha\<lparr>role := ''provider''\<rparr>)
   \<and> (\<exists>q. fst (post_providers_register sample_env sample_state (ValidToken 1 ''customer'')
               (Some (Val [''cleaning''])) (Some (Val (Finite 2))) (Some (Val ''Pune'')) None)
             = Response 201 (MessageProvider ''Provider registration successful'' q)
           \<and> userId q = 1
           \<and> providers (snd (post_providers_register sample_env sample_state
                  (ValidToken 1 ''customer'') (Some (Val [''cleaning''])) (Some (Val (Finite 2)))
                  (Some (Val ''Pune'')) None))
               = providers sample_state @ [q])"
  using register_contract [of sample_state 2 ravi_provider sample_env "''provider''"
      "Some (Val [''cleaning''])" "Some (Val (Finite 2))" "Some (Val ''Pune'')" None]
    register_contract [of sample_state 1 ravi_provider sample_env "''customer''"
      "Some (Val [''cleaning''])" "Some (Val (Finite 2))" "Some (Val ''Pune'')" None]
    sample_findOne_ravi sample_findOne_asha_provider sample_findById_asha
  by simp

text \<open>
  C10: the role is written before the Provider record is saved. When no Provider record
  exists for the caller and the save fails, the response is 500 and the store keeps the
  role update: the caller's User record has the role provider, no Provider record exists
  for the caller, and the store differs from the one before the call whenever the caller
  was not a provider already.
\<close>

theorem register_not_atomic:
  assumes "Provider_findOne s uid = None"
    and "Provider_save (User_findByIdAndUpdate_role s uid ''provider'')
           (Provider_new e (User_findByIdAndUpdate_role s uid ''provider'') uid sv ex lo av)
         = Inl err"
  shows "post_providers_register e s (ValidToken uid r) sv ex lo av
      = (Response 500 (MessageError ''Server error'' err),
         User_findByIdAndUpdate_role s uid ''provider'')
    \<and> User_findById (User_findByIdAndUpdate_role s uid ''provider'') uid
        = map_option (\<lambda>u. u\<lparr>role := ''provider''\<rparr>) (User_findById s uid)
    \<and> Provider_findOne (User_findByIdAndUpdate_role s uid ''provider'') uid = None
    \<and> (\<forall>u. User_findById s uid = Some u \<and> role u \<noteq> ''provider''
          \<longrightarrow> User_findByIdAndUpdate_role s uid ''provider'' \<noteq> s)"
proof -
  have "\<forall>u. User_findById s uid = Some u \<and> role u \<noteq> ''provider''
          \<longrightarrow> User_findByIdAndUpdate_role s uid ''provider'' \<noteq> s"
  proof (intro allI impI notI)
    fix u
    assume u: "User_findById s uid = Some u \<and> role u \<noteq> ''provider''"
      and eq: "User_findByIdAndUpdate_role s uid ''provider'' = s"
    from findById_role_update [of s uid "''provider''"] eq u
    have "Some u = Some (u\<lparr>role := ''provider''\<rparr>)" by simp
    then have "role u = role (u\<lparr>role := ''provider''\<rparr>)" by simp
    with u show False by simp
  qed
  with assms show ?thesis
    by (simp add: post_providers_register_def verifyToken_def Let_def findById_role_update)
qed

theorem register_not_atomic_witness:
  "post_providers_register sample_env sample_state (ValidToken 1 ''customer'')
       None None (Some Uncastable) None
     = (Response 500 (MessageError ''Server error'' ValidationError),
        User_findByIdAndUpdate_role sample_state 1 ''provider'')
   \<and> User_findById (User_findByIdAndUpdate_role sample_state 1 ''provider'') 1
       = Some (asha\<lparr>role := ''provider''\<rparr>)
   \<and> Provider_findOne (User_findByIdAndUpdate_role sample_state 1 ''provider'') 1 = None
   \<and> User_findByIdAndUpdate_role sample_state 1 ''provider'' \<noteq> sample_state"
proof -
  have fails: "Provider_save (User_findByIdAndUpdate_role sample_state 1 ''provider'')
      (Provider_new sample_env (User_findByIdAndUpdate_role sample_state 1 ''provider'') 1
         None None (Some Uncastable) None) = Inl ValidationError"
    by (simp add: Provider_save_def Provider_new_def optional_def)
  have "role asha \<noteq> ''provider''"
    by (simp add: asha_def)
  with register_not_atomic [OF sample_findOne_asha_provider fails, of "''customer''"]
    sample_findById_asha
  show ?thesis by simp
qed

text \<open>The save fails exactly when a submitted field has no cast to its schema type.\<close>

lemma Provider_save_fails:
  "(\<exists>err. Provider_save s (Provider_new e s uid sv ex lo av) = Inl err)
     = (sv = Some Uncastable \<or> ex = Some Uncastable \<or> lo = Some Uncastable
        \<or> av = Some Uncastable)"
  by (auto simp: Provider_save_def Provider_new_def optional_def split: option.splits cast.splits)

subsection \<open>Listing providers\<close>

text \<open>On the atoms of a literal filter the search is the case-insensitive substring test.\<close>

lemma compile_literal: "literal f \<Longrightarrow> compile f = Some (map Lit f)"
  by (induction f) (auto simp: literal_def syntax_chars_def)

lemma match_here_Lit:
  "match_here (map Lit f) x = (\<exists>suf. toLowerCase x = toLowerCase f @ suf)"
proof (induction f arbitrary: x)
  case Nil
  then show ?case by (simp add: toLowerCase_def)
next
  case (Cons a f)
  show ?case
  proof (cases x)
    case Nil
    then show ?thesis by (simp add: toLowerCase_def)
  next
    case (Cons c cs)
    with Cons.IH [of cs] show ?thesis
      by (auto simp: toLowerCase_def)
  qed
qed

lemma search_Lit: "search (map Lit f) x = contains_ci f x"
proof (induction x)
  case Nil
  then show ?case
    by (cases f) (auto simp: contains_ci_def toLowerCase_def)
next
  case (Cons c cs)
  have "contains_ci f (c # cs) =
      ((\<exists>suf. toLowerCase (c # cs) = toLowerCase f @ suf) \<or> contains_ci f cs)"
  proof
    assume "contains_ci f (c # cs)"
    then obtain pre suf where eq: "toLowerCase (c # cs) = pre @ toLowerCase f @ suf"
      by (auto simp: contains_ci_def)
    show "(\<exists>suf. toLowerCase (c # cs) = toLowerCase f @ suf) \<or> contains_ci f cs"
    proof (cases pre)
      case Nil
      with eq show ?thesis by auto
    next
      case (Cons p pre')
      with eq have "toLowerCase cs = pre' @ toLowerCase f @ suf"
        by (simp add: toLowerCase_def)
      then show ?thesis by (auto simp: contains_ci_def)
    qed
  next
    assume "(\<exists>suf. toLowerCase (c # cs) = toLowerCase f @ suf) \<or> contains_ci f cs"
    then show "contains_ci f (c # cs)"
    proof
      assume "\<exists>suf. toLowerCase (c # cs) = toLowerCase f @ suf"
      then obtain suf where "toLowerCase (c # cs) = [] @ toLowerCase f @ suf" by auto
      then show ?thesis unfolding contains_ci_def by blast
    next
      assume "contains_ci f cs"
      then obtain pre suf where "toLowerCase cs = pre @ toLowerCase f @ suf"
        by (auto simp: contains_ci_def)
      then have "toLowerCase (c # cs) = (lower_char c # pre) @ toLowerCase f @ suf"
        by (simp add: toLowerCase_def)
      then show ?thesis unfolding contains_ci_def by blast
    qed
  qed
  with Cons.IH show ?case
    by (simp add: match_here_Lit)
qed

lemma RegExp_literal: "literal f \<Longrightarrow> RegExp_i e f = Some (contains_ci f)"
  by (simp add: RegExp_i_def compile_literal search_Lit [abs_def])

lemma sample_populate_ravi:
  "populate_provider sample_state ravi_provider
     = (ravi_provider, Some (ContactView 2 ''Ravi Kumar'' ''ravi@example.com'' ''9000000002''))"
  by (simp add: populate_provider_def populate_user_def sample_state_def asha_def ravi_def
      ravi_provider_def)

lemma sample_search_mum: "search [Lit CHR ''m'', Lit CHR ''u'', Lit CHR ''m''] ''Mumbai''"
  by (simp add: lower_char_def upper_letters_def lower_letters_def)

lemma sample_search_dot: "search [Lit CHR ''m'', AnyChar, Lit CHR ''m''] ''Mumbai''"
  by (simp add: lower_char_def upper_letters_def lower_letters_def)

lemma get_providers_mum:
  "get_providers sample_env sample_state (Some ''plumbing'') (Some ''mum'')
     = Response 200 (Providers [(ravi_provider,
         Some (ContactView 2 ''Ravi Kumar'' ''ravi@example.com'' ''9000000002''))])"
proof -
  have "Provider_find sample_state \<lparr>q_verified = Some True, q_services = Some ''plumbing'',
      q_location = Some (search [Lit CHR ''m'', Lit CHR ''u'', Lit CHR ''m''])\<rparr> = [ravi_provider]"
    using sample_search_mum
    by (simp add: Provider_find_def Provider_matches_def sample_state_def)
      (simp add: ravi_provider_def)
  then show ?thesis
    by (simp add: get_providers_def truthy_def RegExp_i_def syntax_chars_def Let_def
        sample_populate_ravi)
qed

lemma get_providers_dot:
  "get_providers sample_env sample_state None (Some ''m.m'')
     = Response 200 (Providers [(ravi_provider,
         Some (ContactView 2 ''Ravi Kumar'' ''ravi@example.com'' ''9000000002''))])"
proof -
  have "Provider_find sample_state \<lparr>q_verified = Some True, q_services = None,
      q_location = Some (search [Lit CHR ''m'', AnyChar, Lit CHR ''m''])\<rparr> = [ravi_provider]"
    using sample_search_dot
    by (simp add: Provider_find_def Provider_matches_def sample_state_def)
      (simp add: ravi_provider_def)
  then show ?thesis
    by (simp add: get_providers_def truthy_def RegExp_i_def syntax_chars_def Let_def
        sample_populate_ravi)
qed

text \<open>
  C7, as the claim states it, fails: the location filter is compiled as a regular
  expression. The filter \<open>m.m\<close> returns the provider located in \<open>Mumbai\<close>, a string that
  does not contain \<open>m.m\<close>.
\<close>

theorem get_providers_counterexample:
  "get_providers sample_env sample_state None (Some ''m.m'')
     = Response 200 (Providers [(ravi_provider,
         Some (ContactView 2 ''Ravi Kumar'' ''ravi@example.com'' ''9000000002''))])
   \<and> location ravi_provider = Some ''Mumbai''
   \<and> \<not> contains_ci ''m.m'' ''Mumbai''"
proof -
  have "\<not> search (map Lit ''m.m'') ''Mumbai''"
    by (simp add: lower_char_def upper_letters_def lower_letters_def)
  then have "\<not> contains_ci ''m.m'' ''Mumbai''"
    using search_Lit [of "''m.m''" "''Mumbai''"] by blast
  moreover have "location ravi_provider = Some ''Mumbai''"
    by (simp add: ravi_provider_def)
  ultimately show ?thesis
    using get_providers_dot by simp
qed

text \<open>
  C7, amended: every provider in a result of \<open>GET /api/providers\<close> has verified = true
  whatever the filters; when a non-empty service filter is given, its services contain
  that exact string; when a non-empty location filter is given, its location is set and
  matches the filter read as a case-insensitive regular expression, which for a filter
  without regular-expression syntax characters (as \<open>mum\<close>) means that the location
  contains the filter as a case-insensitive substring.
\<close>

theorem get_providers_contract:
  assumes "get_providers e s sv loc = Response 200 (Providers ps)" and "(p, c) \<in> set ps"
  shows "verified p
    \<and> (\<forall>f. sv = Some f \<and> f \<noteq> [] \<longrightarrow> f \<in> set (services p))
    \<and> (\<forall>l. loc = Some l \<and> l \<noteq> [] \<longrightarrow>
          (\<exists>re x. RegExp_i e l = Some re \<and> location p = Some x \<and> re x))
    \<and> (\<forall>l. loc = Some l \<and> l \<noteq> [] \<and> literal l \<longrightarrow>
          (\<exists>x. location p = Some x \<and> contains_ci l x))"
proof -
  have lit: "\<And>l re x. literal l \<Longrightarrow> RegExp_i e l = Some re \<Longrightarrow> re x \<Longrightarrow> contains_ci l x"
    by (simp add: RegExp_literal)
  from assms have 1: "verified p \<and> (\<forall>f. sv = Some f \<and> f \<noteq> [] \<longrightarrow> f \<in> set (services p))
    \<and> (\<forall>l. loc = Some l \<and> l \<noteq> [] \<longrightarrow>
          (\<exists>re x. RegExp_i e l = Some re \<and> location p = Some x \<and> re x))"
    by (auto simp: get_providers_def Let_def truthy_def Provider_find_def Provider_matches_def
        populate_provider_def split: option.splits if_splits)
  with lit show ?thesis by blast
qed

theorem get_providers_contract_witness:
  "verified ravi_provider
   \<and> ''plumbing'' \<in> set (services ravi_provider)
   \<and> (\<exists>x. location ravi_provider = Some x \<and> contains_ci ''mum'' x)"
proof -
  have "literal ''mum''"
    by (simp add: literal_def syntax_chars_def)
  with get_providers_contract [OF get_providers_mum, of ravi_provider
      "Some (ContactView 2 ''Ravi Kumar'' ''ravi@example.com'' ''9000000002'')"]
  show ?thesis by simp
qed

text \<open>
  For a non-empty filter without syntax characters the result is exactly the verified
  providers that pass the service filter and whose location contains the filter.
\<close>

lemma get_providers_literal:
  assumes "literal l" and "l \<noteq> []"
  shows "get_providers e s sv (Some l)
    = Response 200 (Providers (map (populate_provider s)
        (filter (\<lambda>p. verified p
            \<and> (case sv of Some f \<Rightarrow> f = [] \<or> f \<in> set (services p) | None \<Rightarrow> True)
            \<and> (case location p of Some x \<Rightarrow> contains_ci l x | None \<Rightarrow> False))
          (providers s))))"
proof -
  have "\<And>q. filter (Provider_matches q) (providers s)
      = filter (\<lambda>p. Provider_matches q p) (providers s)"
    by simp
  with assms show ?thesis
    by (cases sv)
      (simp_all add: get_providers_def Let_def truthy_def RegExp_literal Provider_find_def
        Provider_matches_def [abs_def] conj_commute)
qed

subsection \<open>Doubles\<close>




lemma pow2_nonneg: "0 \<le> k \<Longrightarrow> pow2 k = 2 ^ nat k"
  by (simp add: pow2_def)






subsection \<open>Dashboard statistics\<close>












subsection \<open>Invariants of the reachable stores\<close>

text \<open>
  The stored emails are lowercase in every reachable store, which is the hypothesis of
  the duplicate-email theorem.
\<close>

lemma users_post_bookings: "users (snd (post_bookings e s a p sv d t l am)) = users s"
  by (auto simp: post_bookings_def Booking_save_def Let_def
      split: sum.splits prod.splits option.splits if_splits)

lemma providers_post_bookings: "providers (snd (post_bookings e s a p sv d t l am)) = providers s"
  by (auto simp: post_bookings_def Booking_save_def Let_def
      split: sum.splits prod.splits option.splits if_splits)

lemma users_patch_status: "users (snd (patch_bookings_status s a i st)) = users s"
  by (auto simp: patch_bookings_status_def Booking_findByIdAndUpdate_def
      split: sum.splits prod.splits option.splits cast.splits)

lemma providers_patch_status: "providers (snd (patch_bookings_status s a i st)) = providers s"
  by (auto simp: patch_bookings_status_def Booking_findByIdAndUpdate_def
      split: sum.splits prod.splits option.splits cast.splits)

lemma providers_signup: "providers (snd (post_auth_signup e s fn em ph g pw)) = providers s"
  by (auto simp: post_auth_signup_def User_save_def
      split: option.splits sum.splits prod.splits if_splits)

lemma emails_update_first_role:
  "map email (update_first P (\<lambda>u. u\<lparr>role := r\<rparr>) us) = map email us"
  by (induction us) auto

lemma register_keeps_emails_lowercase:
  assumes "emails_lowercase s"
  shows "emails_lowercase (snd (post_providers_register e s a sv ex lo av))"
proof -
  have "map email (users (snd (post_providers_register e s a sv ex lo av))) = map email (users s)"
    by (auto simp: post_providers_register_def Let_def Provider_save_def
        User_findByIdAndUpdate_role_def emails_update_first_role
        split: sum.splits prod.splits option.splits)
  moreover have conv: "\<And>us. list_all (\<lambda>u. email u = toLowerCase (email u)) us
      = list_all (\<lambda>x. x = toLowerCase x) (map email us)"
    by (simp add: list_all_iff)
  ultimately show ?thesis
    using assms unfolding emails_lowercase_def conv by simp
qed

lemma reachable_emails_lowercase: "reachable s \<Longrightarrow> emails_lowercase s"
proof (induction rule: reachable.induct)
  case empty_store
  then show ?case by (simp add: emails_lowercase_def)
next
  case (after_signup s e fn em ph g pw)
  then show ?case by (simp add: signup_keeps_emails_lowercase)
next
  case (after_booking s e a p sv d t l am)
  then show ?case by (simp add: emails_lowercase_def users_post_bookings)
next
  case (after_status s a i st)
  then show ?case by (simp add: emails_lowercase_def users_patch_status)
next
  case (after_register s e a sv ex lo av)
  then show ?case by (simp add: register_keeps_emails_lowercase)
qed

text \<open>
  No user owns two Provider records in a reachable store: registration inserts a record
  only after the lookup for the caller has found none.
\<close>

lemma findOne_None_iff: "(Provider_findOne s uid = None) = (uid \<notin> userId ` set (providers s))"
  by (auto simp: Provider_findOne_def find_None_iff)

lemma register_one_provider_per_user:
  assumes "distinct (map userId (providers s))"
  shows "distinct (map userId (providers (snd (post_providers_register e s a sv ex lo av))))"
proof (cases a)
  case (ValidToken uid r)
  show ?thesis
  proof (cases "Provider_findOne s uid")
    case None
    then have "uid \<notin> userId ` set (providers s)"
      by (simp add: findOne_None_iff)
    with assms None ValidToken show ?thesis
      by (auto simp: post_providers_register_def verifyToken_def Let_def Provider_save_def
          Provider_new_def split: option.splits)
  next
    case (Some p)
    with assms ValidToken show ?thesis
      by (simp add: post_providers_register_def verifyToken_def)
  qed
qed (use assms in \<open>simp_all add: post_providers_register_def verifyToken_def\<close>)

lemma reachable_one_provider_per_user: "reachable s \<Longrightarrow> distinct (map userId (providers s))"
proof (induction rule: reachable.induct)
  case empty_store
  then show ?case by simp
next
  case (after_signup s e fn em ph g pw)
  then show ?case by (simp add: providers_signup)
next
  case (after_booking s e a p sv d t l am)
  then show ?case by (simp add: providers_post_bookings)
next
  case (after_status s a i st)
  then show ?case by (simp add: providers_patch_status)
next
  case (after_register s e a sv ex lo av)
  then show ?case by (simp add: register_one_provider_per_user)
qed

end
